theory Spec2Isabelle
  imports Complex_Main "HOL-Library.Char_ord" "HOL-Library.List_Lexorder"
begin

section \<open>Conventions of the embedding\<close>

text \<open>
  The Python sources under \<^verbatim>\<open>src/backend\<close> are embedded function by function.
  \<^item> Python \<^verbatim>\<open>int\<close> is \<^typ>\<open>int\<close>; Python \<^verbatim>\<open>str\<close> is \<^typ>\<open>string\<close>.
  \<^item> In the client a Python \<^verbatim>\<open>float\<close> is a binary64 number, an infinity or NaN, and
    the product in \<^verbatim>\<open>_scale_to_chainlink\<close> is rounded to binary64 as Python rounds it.
    An observation holds a finite raw value, given by the real number it denotes, and
    the arithmetic of the anomaly detector (mean, standard deviation, quotients) is exact
    arithmetic on \<^typ>\<open>real\<close>.
  \<^item> Everything a function reads from outside (the HTTP response, the contract call,
    the transaction receipt, the clock) is an explicit argument.
  \<^item> An exception is a value: a function that can raise returns a sum, \<open>Inl\<close> the
    exception.
  \<^item> Text stored by SQLite (timestamps) is compared as SQLite compares text, that is
    lexicographically; the order on \<^typ>\<open>string\<close> used below is that order.
\<close>

section \<open>Rendering integers (\<^verbatim>\<open>str(int)\<close>, f-strings)\<close>

definition digit_char :: "nat \<Rightarrow> char" where
  "digit_char n = ''0123456789'' ! (n mod 10)"

fun nat_digits :: "nat \<Rightarrow> string" where
  "nat_digits n = (if n < 10 then [digit_char n] else nat_digits (n div 10) @ [digit_char n])"

definition str_int :: "int \<Rightarrow> string" where
  "str_int i = (if i < 0 then CHR ''-'' # nat_digits (nat (- i)) else nat_digits (nat i))"

section \<open>\<^verbatim>\<open>bcb_client.py\<close>: constants and data\<close>

definition CHAINLINK_DECIMALS :: int where
  "CHAINLINK_DECIMALS = 8"

definition CHAINLINK_PRECISION :: int where
  "CHAINLINK_PRECISION = 10 ^ nat CHAINLINK_DECIMALS"

datatype RateType = IPCA | CDI | SELIC | PTAX | IGPM | TR

text \<open>\<^verbatim>\<open>rate_type.value\<close>: the enum's string.\<close>

fun rate_value :: "RateType \<Rightarrow> string" where
  "rate_value IPCA = ''IPCA''"
| "rate_value CDI = ''CDI''"
| "rate_value SELIC = ''SELIC''"
| "rate_value PTAX = ''PTAX''"
| "rate_value IGPM = ''IGPM''"
| "rate_value TR = ''TR''"

text \<open>\<^verbatim>\<open>for rate_type in RateType\<close>: the members in definition order.\<close>

definition all_rate_types :: "RateType list" where
  "all_rate_types = [IPCA, CDI, SELIC, PTAX, IGPM, TR]"

record RateConfig =
  bcb_series :: int
  description :: string
  decimals :: int
  heartbeat_seconds :: int
  min_value :: int
  max_value :: int
  is_percentage :: bool
  update_frequency :: string

fun RATE_CONFIGS :: "RateType \<Rightarrow> RateConfig" where
  "RATE_CONFIGS IPCA = \<lparr>bcb_series = 433,
     description = ''IPCA - Brazilian Consumer Price Index (Monthly YoY %)'',
     decimals = CHAINLINK_DECIMALS, heartbeat_seconds = 35 * 24 * 3600,
     min_value = - 1000000000, max_value = 10000000000,
     is_percentage = True, update_frequency = ''monthly''\<rparr>"
| "RATE_CONFIGS CDI = \<lparr>bcb_series = 12,
     description = ''CDI - Interbank Deposit Rate (Annualized %)'',
     decimals = CHAINLINK_DECIMALS, heartbeat_seconds = 2 * 24 * 3600,
     min_value = 0, max_value = 5000000000,
     is_percentage = True, update_frequency = ''daily''\<rparr>"
| "RATE_CONFIGS SELIC = \<lparr>bcb_series = 432,
     description = ''SELIC - Central Bank Target Rate (%)'',
     decimals = CHAINLINK_DECIMALS, heartbeat_seconds = 2 * 24 * 3600,
     min_value = 0, max_value = 5000000000,
     is_percentage = True, update_frequency = ''daily''\<rparr>"
| "RATE_CONFIGS PTAX = \<lparr>bcb_series = 1,
     description = ''PTAX - Official USD/BRL Exchange Rate'',
     decimals = CHAINLINK_DECIMALS, heartbeat_seconds = 2 * 24 * 3600,
     min_value = 100000000, max_value = 1500000000,
     is_percentage = False, update_frequency = ''daily''\<rparr>"
| "RATE_CONFIGS IGPM = \<lparr>bcb_series = 189,
     description = ''IGP-M - General Market Price Index (Monthly %)'',
     decimals = CHAINLINK_DECIMALS, heartbeat_seconds = 35 * 24 * 3600,
     min_value = - 1000000000, max_value = 10000000000,
     is_percentage = True, update_frequency = ''monthly''\<rparr>"
| "RATE_CONFIGS TR = \<lparr>bcb_series = 226,
     description = ''TR - Reference Rate (%)'',
     decimals = CHAINLINK_DECIMALS, heartbeat_seconds = 2 * 24 * 3600,
     min_value = 0, max_value = 5000000000,
     is_percentage = True, update_frequency = ''daily''\<rparr>"

text \<open>
  The \<^verbatim>\<open>datetime\<close> that \<^verbatim>\<open>strptime(s, "%d/%m/%Y")\<close> builds: a calendar date at
  midnight. \<^verbatim>\<open>RateData\<close> objects are built in \<^verbatim>\<open>_process_response\<close> only, so this
  is every timestamp a \<^verbatim>\<open>RateData\<close> carries.
\<close>

record datetime =
  dt_year :: nat
  dt_month :: nat
  dt_day :: nat

definition zero_pad :: "nat \<Rightarrow> string \<Rightarrow> string" where
  "zero_pad w s = replicate (w - length s) CHR ''0'' @ s"

text \<open>\<^verbatim>\<open>dt.isoformat()\<close> of a midnight datetime.\<close>

definition isoformat :: "datetime \<Rightarrow> string" where
  "isoformat dt = zero_pad 4 (nat_digits (dt_year dt)) @ ''-'' @
     zero_pad 2 (nat_digits (dt_month dt)) @ ''-'' @
     zero_pad 2 (nat_digits (dt_day dt)) @ ''T00:00:00''"

record RateData =
  rate_type :: RateType
  answer :: int
  raw_value :: real
  rd_decimals :: int
  real_world_date :: int
  real_world_date_str :: string
  timestamp :: datetime
  source :: string
  rd_description :: string

section \<open>\<^verbatim>\<open>bcb_client.py\<close>: the client\<close>

text \<open>The exception classes of the module, all subclasses of \<^verbatim>\<open>BCBClientError\<close>.\<close>

datatype bcb_error = BCBAPIError | BCBParseError | BCBNoDataError | BCBValidationError

text \<open>
  What can be raised inside the client: one of its own errors, or one of the built-in
  exceptions that indexing a record, \<^verbatim>\<open>strptime\<close>, \<^verbatim>\<open>float\<close> and \<^verbatim>\<open>round\<close> raise.
\<close>

datatype py_exn = BCBClientError bcb_error | KeyError | TypeError | ValueError | OverflowError

text \<open>
  The client object: the two constructor arguments. The lazily created HTTP handle
  carries no state that the functions below read.
\<close>

record BCBClient =
  timeout :: real
  validate :: bool

text \<open>\<^verbatim>\<open>BCBClient()\<close>: \<^verbatim>\<open>timeout = TIMEOUT\<close>, \<^verbatim>\<open>validate = True\<close>.\<close>

definition BCBClient_default :: BCBClient where
  "BCBClient_default = \<lparr>timeout = 30, validate = True\<rparr>"

text \<open>
  A Python float: a finite binary64 number, given by the real number it denotes, or one
  of the infinities, or NaN.
\<close>

datatype pyfloat = Finite real | PosInf | NegInf | NaN

text \<open>
  The two parsers of the Python library that the client calls, as arguments of the model:
  \<^verbatim>\<open>datetime.strptime(s, "%d/%m/%Y")\<close> and \<^verbatim>\<open>float(s)\<close>, each \<open>None\<close> where Python
  raises \<^verbatim>\<open>ValueError\<close>; and \<^verbatim>\<open>str(e)\<close>, the text of an exception. Every statement
  below holds whatever these functions are.
\<close>

record pylib =
  strptime_dmy :: "string \<Rightarrow> datetime option"
  float_of_str :: "string \<Rightarrow> pyfloat option"
  exn_text :: "py_exn \<Rightarrow> string"

text \<open>
  A value of a JSON record: a string, or anything else, kept as the text that
  \<^verbatim>\<open>str()\<close> gives for it. An element of the response is a JSON object (a \<^verbatim>\<open>dict\<close>)
  or not.
\<close>

datatype jvalue = JString string | JNonString string

datatype item = JObject "string \<Rightarrow> jvalue option" | JNotObject

fun py_str :: "jvalue \<Rightarrow> string" where
  "py_str (JString s) = s"
| "py_str (JNonString s) = s"

text \<open>\<^verbatim>\<open>item[key]\<close>: \<^verbatim>\<open>KeyError\<close> on a missing key, \<^verbatim>\<open>TypeError\<close> when the element is no dict.\<close>

fun item_get :: "item \<Rightarrow> string \<Rightarrow> py_exn + jvalue" where
  "item_get JNotObject key = Inl TypeError"
| "item_get (JObject d) key = (case d key of None \<Rightarrow> Inl KeyError | Some v \<Rightarrow> Inr v)"

text \<open>
  \<^verbatim>\<open>_parse_bcb_date\<close>. \<^verbatim>\<open>strptime\<close> raises \<^verbatim>\<open>TypeError\<close> for an argument that is no
  string, which the function does not catch; its \<^verbatim>\<open>ValueError\<close> becomes
  \<^verbatim>\<open>BCBParseError\<close>. \<^verbatim>\<open>int(dt.strftime("%Y%m%d"))\<close> is the number written with the year
  followed by the two digits of the month and the two of the day.
\<close>

fun parse_bcb_date :: "pylib \<Rightarrow> jvalue \<Rightarrow> py_exn + (int \<times> datetime)" where
  "parse_bcb_date lib (JNonString s) = Inl TypeError"
| "parse_bcb_date lib (JString date_str) =
     (case strptime_dmy lib date_str of
        None \<Rightarrow> Inl (BCBClientError BCBParseError)
      | Some dt \<Rightarrow> Inr (int (dt_year dt * 10000 + dt_month dt * 100 + dt_day dt), dt))"

text \<open>Rounding to the nearest integer, a tie to the even one.\<close>

definition round_half_even :: "real \<Rightarrow> int" where
  "round_half_even x =
     (let f = \<lfloor>x\<rfloor>; d = x - of_int f
      in if d < 1 / 2 then f else if d > 1 / 2 then f + 1 else if even f then f else f + 1)"

text \<open>
  The built-in \<^verbatim>\<open>round(x)\<close> of a float rounds a finite one half to even; it raises
  \<^verbatim>\<open>OverflowError\<close> on an infinity and \<^verbatim>\<open>ValueError\<close> on NaN.
\<close>

fun py_round :: "pyfloat \<Rightarrow> py_exn + int" where
  "py_round (Finite x) = Inr (round_half_even x)"
| "py_round PosInf = Inl OverflowError"
| "py_round NegInf = Inl OverflowError"
| "py_round NaN = Inl ValueError"

text \<open>
  Rounding a real number to binary64, to nearest and a tie to the even significand.
  Around \<open>x\<close> the binary64 numbers are the multiples of \<open>2\<close> to the power
  \<open>\<lfloor>log\<^sub>2 \<bar>x\<bar>\<rfloor> - 52\<close> (53 significant bits), and of \<open>2\<close> to the power \<open>- 1074\<close> in the
  subnormal range; a result of magnitude \<open>2\<^sup>1\<^sup>0\<^sup>2\<^sup>4\<close> or more overflows to an infinity.
\<close>

definition binary64_nearest :: "real \<Rightarrow> real" where
  "binary64_nearest x =
     (if x = 0 then 0
      else let e = max (\<lfloor>log 2 \<bar>x\<bar>\<rfloor> - 52) (- 1074)
           in of_int (round_half_even (x / 2 powi e)) * 2 powi e)"

definition binary64_round :: "real \<Rightarrow> pyfloat" where
  "binary64_round x =
     (let y = binary64_nearest x
      in if \<bar>y\<bar> \<ge> 2 ^ 1024 then (if y < 0 then NegInf else PosInf) else Finite y)"

fun float_negative :: "pyfloat \<Rightarrow> bool" where
  "float_negative (Finite x) = (x < 0)"
| "float_negative PosInf = False"
| "float_negative NegInf = True"
| "float_negative NaN = False"

text \<open>
  The product of two floats: NaN if a factor is NaN or the factors are zero and an
  infinity; the rounded exact product of two finite factors; otherwise the infinity of
  the product's sign.
\<close>

fun float_mul :: "pyfloat \<Rightarrow> pyfloat \<Rightarrow> pyfloat" where
  "float_mul NaN y = NaN"
| "float_mul x NaN = NaN"
| "float_mul (Finite x) (Finite y) = binary64_round (x * y)"
| "float_mul x y =
     (if x = Finite 0 \<or> y = Finite 0 then NaN
      else if float_negative x = float_negative y then PosInf else NegInf)"

text \<open>
  \<^verbatim>\<open>_scale_to_chainlink\<close>: \<^verbatim>\<open>int(round(value * CHAINLINK_PRECISION))\<close>. The integer
  \<open>10\<^sup>8\<close> converts to a float exactly; \<^verbatim>\<open>int\<close> of the integer that \<^verbatim>\<open>round\<close> returns is
  that integer.
\<close>

definition scale_to_chainlink :: "pyfloat \<Rightarrow> py_exn + int" where
  "scale_to_chainlink v = py_round (float_mul v (Finite (of_int CHAINLINK_PRECISION)))"

text \<open>\<^verbatim>\<open>_validate_value\<close>: returns \<^verbatim>\<open>None\<close> or raises \<^verbatim>\<open>BCBValidationError\<close>.\<close>

definition validate_value :: "BCBClient \<Rightarrow> RateType \<Rightarrow> int \<Rightarrow> pyfloat \<Rightarrow> py_exn + unit" where
  "validate_value self rt scaled_value raw =
     (if \<not> validate self then Inr ()
      else let config = RATE_CONFIGS rt
           in if scaled_value < min_value config then Inl (BCBClientError BCBValidationError)
              else if scaled_value > max_value config then Inl (BCBClientError BCBValidationError)
              else Inr ())"

text \<open>\<^verbatim>\<open>s.replace(",", ".")\<close>\<close>

definition replace_comma :: "string \<Rightarrow> string" where
  "replace_comma s = map (\<lambda>c. if c = CHR '','' then CHR ''.'' else c) s"

text \<open>
  The body of the \<^verbatim>\<open>try\<close> in \<^verbatim>\<open>_process_response\<close>, in its two parsing steps and as
  a whole: \<^verbatim>\<open>self._parse_bcb_date(item["data"])\<close>, then
  \<^verbatim>\<open>float(str(item["valor"]).replace(",", "."))\<close>, then scaling, validation and the
  \<^verbatim>\<open>RateData\<close>.
\<close>

definition item_date :: "pylib \<Rightarrow> item \<Rightarrow> py_exn + (int \<times> datetime)" where
  "item_date lib it =
     (case item_get it ''data'' of Inl e \<Rightarrow> Inl e | Inr v \<Rightarrow> parse_bcb_date lib v)"

definition item_raw_value :: "pylib \<Rightarrow> item \<Rightarrow> py_exn + pyfloat" where
  "item_raw_value lib it =
     (case item_get it ''valor'' of
        Inl e \<Rightarrow> Inl e
      | Inr v \<Rightarrow> (case float_of_str lib (replace_comma (py_str v)) of
                    None \<Rightarrow> Inl ValueError
                  | Some x \<Rightarrow> Inr x))"

text \<open>
  The \<^verbatim>\<open>RateData\<close> of a record. It is built after the scaling has returned, hence for
  a finite raw value only, and \<^verbatim>\<open>raw_value\<close> holds that value.
\<close>

fun float_value :: "pyfloat \<Rightarrow> real" where
  "float_value (Finite x) = x"
| "float_value PosInf = 0"
| "float_value NegInf = 0"
| "float_value NaN = 0"

definition make_rate_data ::
    "RateType \<Rightarrow> item \<Rightarrow> int \<Rightarrow> datetime \<Rightarrow> pyfloat \<Rightarrow> int \<Rightarrow> RateData" where
  "make_rate_data rt it date_int dt raw scaled_value =
     \<lparr>rate_type = rt, answer = scaled_value, raw_value = float_value raw,
      rd_decimals = CHAINLINK_DECIMALS, real_world_date = date_int,
      real_world_date_str = (case item_get it ''data'' of Inr v \<Rightarrow> py_str v | Inl e \<Rightarrow> []),
      timestamp = dt,
      source = ''BCB-'' @ str_int (bcb_series (RATE_CONFIGS rt)),
      rd_description = description (RATE_CONFIGS rt)\<rparr>"

definition process_item :: "pylib \<Rightarrow> BCBClient \<Rightarrow> RateType \<Rightarrow> item \<Rightarrow> py_exn + RateData" where
  "process_item lib self rt it =
     (case item_date lib it of
        Inl e \<Rightarrow> Inl e
      | Inr (date_int, dt) \<Rightarrow>
          (case item_raw_value lib it of
             Inl e \<Rightarrow> Inl e
           | Inr raw \<Rightarrow>
               (case scale_to_chainlink raw of
                  Inl e \<Rightarrow> Inl e
                | Inr scaled_value \<Rightarrow>
                    (case validate_value self rt scaled_value raw of
                       Inl e \<Rightarrow> Inl e
                     | Inr u \<Rightarrow> Inr (make_rate_data rt it date_int dt raw scaled_value)))))"

text \<open>
  The \<^verbatim>\<open>for\<close> loop of \<^verbatim>\<open>_process_response\<close> with its handlers, in their order:
  \<^verbatim>\<open>BCBValidationError\<close> is raised again; \<^verbatim>\<open>BCBParseError\<close>, \<^verbatim>\<open>KeyError\<close>, \<^verbatim>\<open>TypeError\<close>
  and \<^verbatim>\<open>ValueError\<close> skip the record; any other exception, the \<^verbatim>\<open>OverflowError\<close> of
  \<^verbatim>\<open>round\<close> among them, has no handler and leaves the loop.
\<close>

fun process_items ::
    "pylib \<Rightarrow> BCBClient \<Rightarrow> RateType \<Rightarrow> item list \<Rightarrow> RateData list \<Rightarrow> py_exn + RateData list" where
  "process_items lib self rt [] results = Inr results"
| "process_items lib self rt (it # rest) results =
     (case process_item lib self rt it of
        Inr rd \<Rightarrow> process_items lib self rt rest (results @ [rd])
      | Inl (BCBClientError BCBValidationError) \<Rightarrow> Inl (BCBClientError BCBValidationError)
      | Inl (BCBClientError BCBParseError) \<Rightarrow> process_items lib self rt rest results
      | Inl KeyError \<Rightarrow> process_items lib self rt rest results
      | Inl TypeError \<Rightarrow> process_items lib self rt rest results
      | Inl ValueError \<Rightarrow> process_items lib self rt rest results
      | Inl e \<Rightarrow> Inl e)"

text \<open>
  \<^verbatim>\<open>results.sort(key=lambda x: x.real_world_date, reverse=True)\<close>: a stable sort, the
  latest reference date first.
\<close>

definition sort_by_date_desc :: "RateData list \<Rightarrow> RateData list" where
  "sort_by_date_desc results = sort_key (\<lambda>x. - real_world_date x) results"

definition process_response ::
    "pylib \<Rightarrow> BCBClient \<Rightarrow> item list \<Rightarrow> RateType \<Rightarrow> py_exn + RateData list" where
  "process_response lib self data rt =
     (case process_items lib self rt data [] of
        Inl e \<Rightarrow> Inl e
      | Inr results \<Rightarrow> Inr (sort_by_date_desc results))"

text \<open>
  What the GET request does: it fails in transport, or answers with an error status, or
  with a body that is no JSON, or with a JSON list. \<^verbatim>\<open>_request\<close> maps the first two to
  \<^verbatim>\<open>BCBAPIError\<close>, the third to \<^verbatim>\<open>BCBParseError\<close>, and an empty list to \<^verbatim>\<open>BCBNoDataError\<close>.
\<close>

datatype http_outcome = RequestError | HTTPStatusError | InvalidJSON | Body "item list"

fun request :: "http_outcome \<Rightarrow> py_exn + item list" where
  "request RequestError = Inl (BCBClientError BCBAPIError)"
| "request HTTPStatusError = Inl (BCBClientError BCBAPIError)"
| "request InvalidJSON = Inl (BCBClientError BCBParseError)"
| "request (Body data) =
     (if data = [] then Inl (BCBClientError BCBNoDataError) else Inr data)"

definition fetch_latest :: "pylib \<Rightarrow> BCBClient \<Rightarrow> http_outcome \<Rightarrow> RateType \<Rightarrow> py_exn + RateData" where
  "fetch_latest lib self http rt =
     (case request http of
        Inl e \<Rightarrow> Inl e
      | Inr data \<Rightarrow>
          (case process_response lib self data rt of
             Inl e \<Rightarrow> Inl e
           | Inr [] \<Rightarrow> Inl (BCBClientError BCBNoDataError)
           | Inr (result # others) \<Rightarrow> Inr result))"



text \<open>
  \<^verbatim>\<open>fetch_all_latest\<close>: one \<^verbatim>\<open>fetch_latest\<close> per member of \<^verbatim>\<open>RateType\<close>, with the answer
  each request gets; a \<^verbatim>\<open>BCBClientError\<close> drops that rate, any other exception leaves
  the function. The dictionary it returns is the list of its entries in insertion order.
\<close>

fun fetch_each ::
    "pylib \<Rightarrow> BCBClient \<Rightarrow> (RateType \<Rightarrow> http_outcome) \<Rightarrow> RateType list \<Rightarrow>
     (RateType \<times> RateData) list \<Rightarrow> py_exn + (RateType \<times> RateData) list" where
  "fetch_each lib self http [] results = Inr results"
| "fetch_each lib self http (rt # rest) results =
     (case fetch_latest lib self (http rt) rt of
        Inr rd \<Rightarrow> fetch_each lib self http rest (results @ [(rt, rd)])
      | Inl (BCBClientError e) \<Rightarrow> fetch_each lib self http rest results
      | Inl e \<Rightarrow> Inl e)"

definition fetch_all_latest ::
    "pylib \<Rightarrow> BCBClient \<Rightarrow> (RateType \<Rightarrow> http_outcome) \<Rightarrow>
     py_exn + (RateType \<times> RateData) list" where
  "fetch_all_latest lib self http = fetch_each lib self http all_rate_types []"

section \<open>\<^verbatim>\<open>services/anomaly_detector.py\<close>\<close>

text \<open>
  The message of a result is an f-string that prints floats; it is kept as the template
  chosen together with the values that fill it.
\<close>

datatype anomaly_message =
    InsufficientHistory nat int
  | DiffersFromConstant real real
  | StdDevsFromMean real real string real real
  | BothValuesZero
  | ChangedFromZero real
  | DailyChangeRate string real string real

record AnomalyResult =
  is_anomaly :: bool
  anomaly_type :: "string option"
  current_value :: real
  mean :: real
  std_dev :: real
  z_score :: real
  message :: anomaly_message

record AnomalyDetector =
  std_threshold :: real
  lookback_days :: int
  velocity_threshold :: real
  min_history_size :: int


text \<open>
  \<^verbatim>\<open>statistics.mean\<close> and \<^verbatim>\<open>statistics.stdev\<close> (the sample standard deviation, with
  divisor \<open>n - 1\<close>). The first raises \<^verbatim>\<open>StatisticsError\<close> on an empty list, the second
  on fewer than two values.
\<close>

datatype stats_exn = StatisticsError

definition statistics_mean :: "real list \<Rightarrow> stats_exn + real" where
  "statistics_mean xs = (if length xs < 1 then Inl StatisticsError
                         else Inr (sum_list xs / real (length xs)))"

definition statistics_stdev :: "real list \<Rightarrow> stats_exn + real" where
  "statistics_stdev xs =
     (if length xs < 2 then Inl StatisticsError
      else let m = sum_list xs / real (length xs)
           in Inr (sqrt (sum_list (map (\<lambda>x. (x - m)\<^sup>2) xs) / real (length xs - 1))))"

text \<open>
  \<^verbatim>\<open>detect_value_anomaly\<close>. In the zero-deviation branch the source sets the score to
  infinity for an anomaly and then stores 999 in its place.
\<close>

definition detect_value_anomaly ::
    "AnomalyDetector \<Rightarrow> real \<Rightarrow> real list \<Rightarrow> stats_exn + AnomalyResult" where
  "detect_value_anomaly self cur historical_values =
     (if int (length historical_values) < min_history_size self
      then Inr \<lparr>is_anomaly = False, anomaly_type = None, current_value = cur, mean = cur,
                std_dev = 0, z_score = 0,
                message = InsufficientHistory (length historical_values) (min_history_size self)\<rparr>
      else case statistics_mean historical_values of
          Inl e \<Rightarrow> Inl e
        | Inr m \<Rightarrow>
       (case statistics_stdev historical_values of
          Inl e \<Rightarrow> Inl e
        | Inr sd \<Rightarrow>
            if sd = 0
            then (let anomalous = (cur \<noteq> m)
                  in Inr \<lparr>is_anomaly = anomalous,
                          anomaly_type = (if anomalous then Some ''value_spike'' else None),
                          current_value = cur, mean = m, std_dev = 0,
                          z_score = (if anomalous then 999 else 0),
                          message = DiffersFromConstant cur m\<rparr>)
            else (let z = \<bar>cur - m\<bar> / sd;
                      anomalous = (z > std_threshold self);
                      direction = (if cur > m then ''above'' else ''below'')
                  in Inr \<lparr>is_anomaly = anomalous,
                          anomaly_type = (if anomalous then Some ''value_spike'' else None),
                          current_value = cur, mean = m, std_dev = sd, z_score = z,
                          message = StdDevsFromMean cur z direction m (std_threshold self)\<rparr>)))"



section \<open>\<^verbatim>\<open>oracle_updater.py\<close>: reading the contract and the idempotency check\<close>

text \<open>
  What \<^verbatim>\<open>contract.functions.getRate(rate_type).call()\<close> does: it returns the triple
  (answer, timestamp, realWorldDate), or raises \<^verbatim>\<open>ContractLogicError\<close> (the contract
  reverts for a rate it has no record of), or raises something else (transport).
\<close>

datatype call_outcome =
    CallReturned int int int
  | ContractLogicError
  | CallRaised string

record current_rate =
  cur_rate_type :: string
  cur_answer :: int
  cur_timestamp :: int
  cur_real_world_date :: int
  cur_value_percent :: real

definition PRECISION :: int where
  "PRECISION = 10 ^ nat CHAINLINK_DECIMALS"

text \<open>
  \<^verbatim>\<open>get_current_rate\<close>: only \<^verbatim>\<open>ContractLogicError\<close> is caught and becomes \<^verbatim>\<open>None\<close>;
  any other exception leaves the function (\<open>Inl\<close>, with its text).
\<close>

fun get_current_rate :: "(string \<Rightarrow> call_outcome) \<Rightarrow> string \<Rightarrow> string + current_rate option" where
  "get_current_rate chain rt =
     (case chain rt of
        CallReturned a ts d \<Rightarrow>
          Inr (Some \<lparr>cur_rate_type = rt, cur_answer = a, cur_timestamp = ts,
                     cur_real_world_date = d,
                     cur_value_percent = real_of_int a / real_of_int PRECISION\<rparr>)
      | ContractLogicError \<Rightarrow> Inr None
      | CallRaised msg \<Rightarrow> Inl msg)"

fun check_needs_update :: "(string \<Rightarrow> call_outcome) \<Rightarrow> RateData \<Rightarrow> string + (bool \<times> string)" where
  "check_needs_update chain rate_data =
     (case get_current_rate chain (rate_value (rate_type rate_data)) of
        Inl msg \<Rightarrow> Inl msg
      | Inr None \<Rightarrow> Inr (True, ''no_existing_data'')
      | Inr (Some current) \<Rightarrow>
          if cur_real_world_date current = real_world_date rate_data
          then Inr (False, ''same_date:'' @ str_int (real_world_date rate_data))
          else if cur_real_world_date current > real_world_date rate_data
          then Inr (False, ''bcb_data_older:'' @ str_int (real_world_date rate_data) @ ''<''
                      @ str_int (cur_real_world_date current))
          else Inr (True, ''new_date:'' @ str_int (cur_real_world_date current) @ ''->''
                      @ str_int (real_world_date rate_data)))"

section \<open>\<^verbatim>\<open>services/data_store.py\<close>: the four tables\<close>

record rate_row =
  row_id :: nat
  row_rate_type :: string
  row_answer :: int
  row_raw_value :: real
  row_real_world_date :: int
  row_bcb_timestamp :: string
  row_fetch_timestamp :: string
  row_source :: string

record oracle_update_row =
  ou_id :: nat
  ou_rate_type :: string
  ou_tx_hash :: "string option"
  ou_block_number :: "int option"
  ou_gas_used :: "int option"
  ou_status :: string
  ou_error_message :: "string option"
  ou_timestamp :: string

record anomaly_row =
  an_id :: nat
  an_rate_type :: string
  an_detected_at :: string
  an_anomaly_type :: "string option"
  an_current_value :: real
  an_expected_range_low :: real
  an_expected_range_high :: real
  an_std_devs :: real
  an_message :: anomaly_message

record scheduler_run_row =
  sr_id :: nat
  sr_job_id :: string
  sr_started_at :: string
  sr_ended_at :: "string option"
  sr_status :: string
  sr_rates_processed :: int
  sr_rates_updated :: int
  sr_error_message :: "string option"

text \<open>
  The database: each table as the list of its rows in insertion order, with the
  \<^verbatim>\<open>AUTOINCREMENT\<close> counter SQLite keeps for it (the largest id the table ever held).
\<close>

record data_store =
  rates :: "rate_row list"
  rates_seq :: nat
  oracle_updates :: "oracle_update_row list"
  oracle_updates_seq :: nat
  anomalies :: "anomaly_row list"
  anomalies_seq :: nat
  scheduler_runs :: "scheduler_run_row list"
  scheduler_runs_seq :: nat

definition empty_store :: data_store where
  "empty_store = \<lparr>rates = [], rates_seq = 0, oracle_updates = [], oracle_updates_seq = 0,
     anomalies = [], anomalies_seq = 0, scheduler_runs = [], scheduler_runs_seq = 0\<rparr>"

text \<open>The columns of \<^verbatim>\<open>UNIQUE(rate_type, real_world_date)\<close>.\<close>

definition rate_key :: "rate_row \<Rightarrow> string \<times> int" where
  "rate_key r = (row_rate_type r, row_real_world_date r)"

text \<open>
  \<^verbatim>\<open>store_rate\<close> runs \<^verbatim>\<open>INSERT OR REPLACE INTO rates (rate_type, answer, raw_value,
  real_world_date, bcb_timestamp, source) VALUES (...)\<close>. With conflict resolution
  REPLACE, SQLite first deletes every row that collides with the new one on a UNIQUE
  constraint, then inserts the new row; the id comes from the \<^verbatim>\<open>AUTOINCREMENT\<close>
  counter and \<^verbatim>\<open>fetch_timestamp\<close> takes its default \<^verbatim>\<open>CURRENT_TIMESTAMP\<close> (\<open>now\<close>).
  The function returns \<^verbatim>\<open>cursor.lastrowid\<close>.
\<close>

definition store_rate :: "string \<Rightarrow> data_store \<Rightarrow> RateData \<Rightarrow> data_store \<times> nat" where
  "store_rate now db rate_data =
     (let new_id = rates_seq db + 1;
          new_row = \<lparr>row_id = new_id,
                     row_rate_type = rate_value (rate_type rate_data),
                     row_answer = answer rate_data,
                     row_raw_value = raw_value rate_data,
                     row_real_world_date = real_world_date rate_data,
                     row_bcb_timestamp = isoformat (timestamp rate_data),
                     row_fetch_timestamp = now,
                     row_source = source rate_data\<rparr>
      in (db\<lparr>rates := filter (\<lambda>r. rate_key r \<noteq> rate_key new_row) (rates db) @ [new_row],
              rates_seq := new_id\<rparr>, new_id))"

text \<open>A run of \<^verbatim>\<open>store_rate\<close> calls, each with the clock reading at its time.\<close>

fun store_rates :: "data_store \<Rightarrow> (string \<times> RateData) list \<Rightarrow> data_store" where
  "store_rates db [] = db"
| "store_rates db ((now, rate_data) # rest) = store_rates (fst (store_rate now db rate_data)) rest"

text \<open>The rows of the table that a (rate type, reference date) key selects.\<close>

definition rows_for :: "data_store \<Rightarrow> string \<times> int \<Rightarrow> rate_row list" where
  "rows_for db k = filter (\<lambda>r. rate_key r = k) (rates db)"

text \<open>
  \<^verbatim>\<open>get_rate_history\<close>: \<^verbatim>\<open>SELECT * FROM rates WHERE rate_type = ? AND fetch_timestamp >= ?
  ORDER BY real_world_date DESC\<close>, the second parameter being the text of the cutoff
  \<^verbatim>\<open>(datetime.now() - timedelta(days=days)).isoformat()\<close>.
\<close>

definition get_rate_history :: "data_store \<Rightarrow> string \<Rightarrow> string \<Rightarrow> rate_row list" where
  "get_rate_history db rt cutoff =
     sort_key (\<lambda>r. - row_real_world_date r)
       (filter (\<lambda>r. row_rate_type r = rt \<and> cutoff \<le> row_fetch_timestamp r) (rates db))"

text \<open>\<^verbatim>\<open>log_oracle_update\<close>: a plain \<^verbatim>\<open>INSERT\<close>; the timestamp column takes its default.\<close>

definition log_oracle_update ::
    "string \<Rightarrow> data_store \<Rightarrow> string \<Rightarrow> string option \<Rightarrow> int option \<Rightarrow> int option \<Rightarrow> string \<Rightarrow>
     string option \<Rightarrow> data_store \<times> nat" where
  "log_oracle_update now db rt tx_hash block_number gas_used status error_message =
     (let new_id = oracle_updates_seq db + 1
      in (db\<lparr>oracle_updates := oracle_updates db @
                 [\<lparr>ou_id = new_id, ou_rate_type = rt, ou_tx_hash = tx_hash,
                   ou_block_number = block_number, ou_gas_used = gas_used,
                   ou_status = status, ou_error_message = error_message,
                   ou_timestamp = now\<rparr>],
              oracle_updates_seq := new_id\<rparr>, new_id))"

text \<open>\<^verbatim>\<open>log_anomaly\<close>: a plain \<^verbatim>\<open>INSERT\<close>; \<^verbatim>\<open>detected_at\<close> takes its default.\<close>

definition log_anomaly ::
    "string \<Rightarrow> data_store \<Rightarrow> string \<Rightarrow> string option \<Rightarrow> real \<Rightarrow> real \<Rightarrow> real \<Rightarrow> real \<Rightarrow>
     anomaly_message \<Rightarrow> data_store \<times> nat" where
  "log_anomaly now db rt a_type cur expected_low expected_high std_devs msg =
     (let new_id = anomalies_seq db + 1
      in (db\<lparr>anomalies := anomalies db @
                 [\<lparr>an_id = new_id, an_rate_type = rt, an_detected_at = now,
                   an_anomaly_type = a_type, an_current_value = cur,
                   an_expected_range_low = expected_low,
                   an_expected_range_high = expected_high,
                   an_std_devs = std_devs, an_message = msg\<rparr>],
              anomalies_seq := new_id\<rparr>, new_id))"

text \<open>
  \<^verbatim>\<open>log_scheduler_run\<close>: \<^verbatim>\<open>INSERT INTO scheduler_runs (job_id, started_at, status)\<close>; the
  end time is \<^verbatim>\<open>NULL\<close> and the two counters take their default 0.
\<close>

definition log_scheduler_run :: "data_store \<Rightarrow> string \<Rightarrow> string \<Rightarrow> string \<Rightarrow> data_store \<times> nat" where
  "log_scheduler_run db job_id started_at status =
     (let new_id = scheduler_runs_seq db + 1
      in (db\<lparr>scheduler_runs := scheduler_runs db @
                 [\<lparr>sr_id = new_id, sr_job_id = job_id, sr_started_at = started_at,
                   sr_ended_at = None, sr_status = status, sr_rates_processed = 0,
                   sr_rates_updated = 0, sr_error_message = None\<rparr>],
              scheduler_runs_seq := new_id\<rparr>, new_id))"

text \<open>
  \<^verbatim>\<open>update_scheduler_run\<close>: \<^verbatim>\<open>UPDATE scheduler_runs SET ... WHERE job_id = ? AND ended_at
  IS NULL ORDER BY started_at DESC LIMIT 1\<close>. The row changed is the open row of the job
  with the greatest start time; among several with that same start time SQL does not say
  which one, and the model takes the one inserted first.
\<close>

fun latest_started :: "scheduler_run_row list \<Rightarrow> scheduler_run_row option" where
  "latest_started [] = None"
| "latest_started (r # rs) =
     (case latest_started rs of
        None \<Rightarrow> Some r
      | Some r' \<Rightarrow> if sr_started_at r < sr_started_at r' then Some r' else Some r)"

definition update_scheduler_run ::
    "data_store \<Rightarrow> string \<Rightarrow> string \<Rightarrow> string \<Rightarrow> int \<Rightarrow> int \<Rightarrow> string option \<Rightarrow> data_store" where
  "update_scheduler_run db job_id ended_at status rates_processed rates_updated error_message =
     (case latest_started
             (filter (\<lambda>r. sr_job_id r = job_id \<and> sr_ended_at r = None) (scheduler_runs db)) of
        None \<Rightarrow> db
      | Some target \<Rightarrow>
          db\<lparr>scheduler_runs :=
               map (\<lambda>r. if sr_id r = sr_id target
                         then r\<lparr>sr_ended_at := Some ended_at, sr_status := status,
                                sr_rates_processed := rates_processed,
                                sr_rates_updated := rates_updated,
                                sr_error_message := error_message\<rparr>
                         else r)
                   (scheduler_runs db)\<rparr>)"

section \<open>\<^verbatim>\<open>oracle_updater.py\<close>: the batch update\<close>

datatype detail = DetailList "string list" | DetailText string

record UpdateResult =
  success :: bool
  rates_updated :: int
  rates_skipped :: int
  tx_hash :: "string option"
  block :: "int option"
  gas_used :: "int option"
  error :: "string option"
  details :: "(string \<times> detail) list option"

text \<open>\<^verbatim>\<open>UpdateResult(success=...)\<close> with the defaults of the dataclass.\<close>

definition UpdateResult_default :: "bool \<Rightarrow> UpdateResult" where
  "UpdateResult_default ok =
     \<lparr>success = ok, rates_updated = 0, rates_skipped = 0, tx_hash = None, block = None,
      gas_used = None, error = None, details = None\<rparr>"

text \<open>
  The receipt of a mined transaction: its status, its logs (each log as the list of its
  topics), block number and gas used.
\<close>

record receipt =
  rc_status :: int
  rc_logs :: "string list list"
  rc_blockNumber :: int
  rc_gasUsed :: int

text \<open>
  What the \<^verbatim>\<open>try\<close> block of \<^verbatim>\<open>sync_all_rates\<close> meets on the network: an exception before
  the transaction is broadcast (nonce, gas price, chain id, gas estimate, signing,
  \<^verbatim>\<open>send_raw_transaction\<close>), an exception after it (waiting for the receipt), or the
  receipt, with the transaction hash in hexadecimal.
\<close>

datatype tx_outcome =
    RaisedBeforeSend string
  | RaisedAfterSend string
  | Mined string receipt

text \<open>
  The arguments of \<^verbatim>\<open>batchUpdateRates(rate_types, answers, dates, sources)\<close>, built from
  \<^emph>\<open>every\<close> fetched rate (\<^verbatim>\<open>for rate_data in rates.values()\<close>).
\<close>

record batch_call =
  bc_rate_types :: "string list"
  bc_answers :: "int list"
  bc_dates :: "int list"
  bc_sources :: "string list"

definition batch_of :: "RateData list \<Rightarrow> batch_call" where
  "batch_of rds = \<lparr>bc_rate_types = map (\<lambda>rd. rate_value (rate_type rd)) rds,
                   bc_answers = map answer rds,
                   bc_dates = map real_world_date rds,
                   bc_sources = map source rds\<rparr>"

text \<open>
  The pre-check loop: \<^verbatim>\<open>to_update\<close> and \<^verbatim>\<open>to_skip\<close>. An exception of
  \<^verbatim>\<open>check_needs_update\<close> is not caught here and leaves \<^verbatim>\<open>sync_all_rates\<close>.
\<close>

fun pre_check ::
    "(string \<Rightarrow> call_outcome) \<Rightarrow> bool \<Rightarrow> RateData list \<Rightarrow> RateData list \<Rightarrow> (string \<times> string) list \<Rightarrow>
     string + (RateData list \<times> (string \<times> string) list)" where
  "pre_check chain force [] to_update to_skip = Inr (to_update, to_skip)"
| "pre_check chain force (rate_data # rest) to_update to_skip =
     (case check_needs_update chain rate_data of
        Inl msg \<Rightarrow> Inl msg
      | Inr (needs_update, reason) \<Rightarrow>
          if needs_update \<or> force
          then pre_check chain force rest (to_update @ [rate_data]) to_skip
          else pre_check chain force rest to_update
                 (to_skip @ [(rate_value (rate_type rate_data), reason)]))"

text \<open>
  \<^verbatim>\<open>rate_updated_events\<close> of the source: the logs of the receipt that have a topic. The
  source counts them into \<^verbatim>\<open>actual_updated\<close>.
\<close>

definition actual_updated :: "receipt \<Rightarrow> nat" where
  "actual_updated rc = length (filter (\<lambda>topics. length topics > 0) (rc_logs rc))"

text \<open>
  \<^verbatim>\<open>sync_all_rates\<close>. Its result is the \<^verbatim>\<open>UpdateResult\<close> together with the batch call that
  was broadcast, if one was. The client is \<^verbatim>\<open>BCBClient()\<close>, and \<open>http\<close> is what its
  requests are answered. An exception of \<^verbatim>\<open>fetch_all_latest\<close> is not caught and leaves the
  function; it is kept as its text.
\<close>

definition sync_all_rates ::
    "pylib \<Rightarrow> (RateType \<Rightarrow> http_outcome) \<Rightarrow> (string \<Rightarrow> call_outcome) \<Rightarrow> tx_outcome \<Rightarrow> bool \<Rightarrow>
     string + (UpdateResult \<times> batch_call option)" where
  "sync_all_rates lib http chain tx force =
     (case fetch_all_latest lib BCBClient_default http of
        Inl e \<Rightarrow> Inl (exn_text lib e)
      | Inr fetched \<Rightarrow>
         if fetched = []
         then Inr ((UpdateResult_default False)\<lparr>error := Some ''No rates fetched from BCB''\<rparr>, None)
         else case pre_check chain force (map snd fetched) [] [] of
           Inl msg \<Rightarrow> Inl msg
         | Inr (to_update, to_skip) \<Rightarrow>
             if to_update = []
             then Inr ((UpdateResult_default True)
                         \<lparr>rates_updated := 0, rates_skipped := int (length to_skip),
                          details := Some [(''skipped'', DetailList (map fst to_skip))]\<rparr>, None)
             else (let batch = batch_of (map snd fetched)
                   in case tx of
                        RaisedBeforeSend msg \<Rightarrow>
                          Inr ((UpdateResult_default False)\<lparr>error := Some msg\<rparr>, None)
                      | RaisedAfterSend msg \<Rightarrow>
                          Inr ((UpdateResult_default False)\<lparr>error := Some msg\<rparr>, Some batch)
                      | Mined hash rc \<Rightarrow>
                          (let ok = (rc_status rc = 1)
                           in Inr (\<lparr>success = ok,
                                    rates_updated = (if ok then int (length to_update) else 0),
                                    rates_skipped = int (length to_skip),
                                    tx_hash = Some hash,
                                    block = Some (rc_blockNumber rc),
                                    gas_used = Some (rc_gasUsed rc),
                                    error = (if ok then None else Some ''Transaction reverted''),
                                    details = Some
                                      [(''updated'', DetailList
                                          (map (\<lambda>r. rate_value (rate_type r)) to_update)),
                                       (''skipped'', DetailList (map fst to_skip)),
                                       (''url'', DetailText
                                          (''https://sepolia.arbiscan.io/tx/'' @ hash))]\<rparr>,
                                   Some batch))))"


section \<open>\<^verbatim>\<open>config.py\<close> and \<^verbatim>\<open>scheduler.py\<close>: the update routine\<close>

text \<open>The settings that the update routine reads.\<close>

record Settings =
  bcb_max_retries :: int
  bcb_retry_base_delay :: real
  bcb_retry_max_delay :: real
  anomaly_std_threshold :: real
  anomaly_lookback_days :: int
  anomaly_velocity_threshold :: real

definition Settings_default :: Settings where
  "Settings_default = \<lparr>bcb_max_retries = 3, bcb_retry_base_delay = 1, bcb_retry_max_delay = 60,
     anomaly_std_threshold = 3, anomaly_lookback_days = 30, anomaly_velocity_threshold = 1 / 2\<rparr>"

record RateScheduler =
  settings :: Settings
  anomaly_detector :: AnomalyDetector

text \<open>\<^verbatim>\<open>RateScheduler()\<close>: the detector is built from the settings.\<close>

definition RateScheduler_init :: "Settings \<Rightarrow> RateScheduler" where
  "RateScheduler_init st =
     \<lparr>settings = st,
      anomaly_detector = \<lparr>std_threshold = anomaly_std_threshold st,
                           lookback_days = anomaly_lookback_days st,
                           velocity_threshold = anomaly_velocity_threshold st,
                           min_history_size = 5\<rparr>\<rparr>"

definition DAILY_RATES :: "RateType list" where
  "DAILY_RATES = [CDI, SELIC, PTAX, TR]"

definition MONTHLY_RATES :: "RateType list" where
  "MONTHLY_RATES = [IPCA, IGPM]"

text \<open>
  What evaluating \<^verbatim>\<open>await bcb.fetch_with_retry(rate_type, max_retries=..., base_delay=...,
  max_delay=...)\<close> gives for a rate type: an observation, a \<^verbatim>\<open>BCBClientError\<close>, or any
  other exception (with its text). No file of the repository defines this operation; where
  it is supposed present it is an argument, its outcome per rate type.
\<close>

datatype fetch_outcome = Fetched RateData | FetchFailed bcb_error | FetchRaised string

text \<open>
  The attributes that class \<^verbatim>\<open>BCBClient\<close> and its constructor define, and the lookup of
  an attribute on a client: a name that is not among them raises \<^verbatim>\<open>AttributeError\<close>.
\<close>

definition BCBClient_attributes :: "string list" where
  "BCBClient_attributes =
     [''BASE_URL'', ''TIMEOUT'', ''__init__'', ''__aenter__'', ''__aexit__'', ''_get_client'',
      ''close'', ''_build_url'', ''_parse_bcb_date'', ''_scale_to_chainlink'',
      ''_validate_value'', ''_process_response'', ''_request'', ''fetch_latest'',
      ''fetch_history'', ''fetch_date_range'', ''fetch_all_latest'', ''health_check'',
      ''get_rate_config'', ''get_all_rate_configs'', ''timeout'', ''validate'', ''_client'']"

definition BCBClient_getattr :: "string \<Rightarrow> string + unit" where
  "BCBClient_getattr name =
     (if name \<in> set BCBClient_attributes then Inr ()
      else Inl ([CHR 0x27] @ ''BCBClient'' @ [CHR 0x27] @ '' object has no attribute ''
                  @ [CHR 0x27] @ name @ [CHR 0x27]))"

text \<open>
  The call of the scheduler as the repository has it: the attribute lookup comes first,
  and a method that is found is then applied (\<open>method\<close>).
\<close>

definition call_fetch_with_retry :: "(RateType \<Rightarrow> fetch_outcome) \<Rightarrow> RateType \<Rightarrow> fetch_outcome" where
  "call_fetch_with_retry method rt =
     (case BCBClient_getattr ''fetch_with_retry'' of
        Inl msg \<Rightarrow> FetchRaised msg
      | Inr u \<Rightarrow> method rt)"

text \<open>
  Everything the routine reads from outside during one run: the clock (as the text that
  is stored), the answer to each fetch, what constructing \<^verbatim>\<open>OracleUpdater()\<close> raises if it
  raises, and what \<^verbatim>\<open>sync_all_rates\<close> meets: the answers to its own requests, the state
  of the contract and the fate of the transaction.
\<close>

record run_env =
  job_start :: string
  fetch_with_retry :: "RateType \<Rightarrow> fetch_outcome"
  history_cutoff :: "RateType \<Rightarrow> string"
  anomaly_time :: "RateType \<Rightarrow> string"
  store_time :: "RateType \<Rightarrow> string"
  statistics_error_text :: string
  updater_init :: "string option"
  updater_http :: "RateType \<Rightarrow> http_outcome"
  chain_state :: "string \<Rightarrow> call_outcome"
  tx_fate :: tx_outcome
  oracle_log_time :: "RateType \<Rightarrow> string"
  job_end :: string

text \<open>The \<^verbatim>\<open>results\<close> dictionary of \<^verbatim>\<open>_update_rates\<close>.\<close>

record update_results =
  res_success :: bool
  res_rates_updated :: int
  res_rates_skipped :: int
  res_rates_failed :: int
  res_anomalies_detected :: int
  res_tx_hash :: "string option"
  res_error :: "string option"

definition initial_results :: update_results where
  "initial_results = \<lparr>res_success = False, res_rates_updated = 0, res_rates_skipped = 0,
     res_rates_failed = 0, res_anomalies_detected = 0, res_tx_hash = None, res_error = None\<rparr>"

text \<open>\<^verbatim>\<open>d[k] = v\<close> on a dictionary kept as the list of its entries.\<close>

fun dict_set :: "('k \<times> 'v) list \<Rightarrow> 'k \<Rightarrow> 'v \<Rightarrow> ('k \<times> 'v) list" where
  "dict_set [] k v = [(k, v)]"
| "dict_set ((k', v') # rest) k v =
     (if k' = k then (k, v) # rest else (k', v') # dict_set rest k v)"

text \<open>
  The fetch loop. A \<^verbatim>\<open>BCBClientError\<close> counts one failed rate; any other exception leaves
  the loop for the outer handler, the count so far staying in \<^verbatim>\<open>results\<close>.
\<close>

fun fetch_loop ::
    "(RateType \<Rightarrow> fetch_outcome) \<Rightarrow> RateType list \<Rightarrow> (RateType \<times> RateData) list \<Rightarrow> update_results \<Rightarrow>
     (string \<times> update_results) + ((RateType \<times> RateData) list \<times> update_results)" where
  "fetch_loop fetch [] fetched_rates results = Inr (fetched_rates, results)"
| "fetch_loop fetch (rt # rest) fetched_rates results =
     (case fetch rt of
        Fetched rate_data \<Rightarrow> fetch_loop fetch rest (dict_set fetched_rates rt rate_data) results
      | FetchFailed e \<Rightarrow>
          fetch_loop fetch rest fetched_rates
            (results\<lparr>res_rates_failed := res_rates_failed results + 1\<rparr>)
      | FetchRaised msg \<Rightarrow> Inl (msg, results))"

text \<open>
  The loop over the fetched rates: the history query, the value check when there is a
  history, the anomaly row when the check flags, and the \<^verbatim>\<open>store_rate\<close> in every case.
  A \<^verbatim>\<open>StatisticsError\<close> leaves the loop for the outer handler.
\<close>

fun check_and_store ::
    "RateScheduler \<Rightarrow> run_env \<Rightarrow> (RateType \<times> RateData) list \<Rightarrow> data_store \<Rightarrow> update_results \<Rightarrow>
     (string \<times> data_store \<times> update_results) + (data_store \<times> update_results)" where
  "check_and_store self env [] db results = Inr (db, results)"
| "check_and_store self env ((rt, rate_data) # rest) db results =
     (let history = get_rate_history db (rate_value rt) (history_cutoff env rt);
          historical_values = map row_raw_value history
      in if historical_values \<noteq> []
         then (case detect_value_anomaly (anomaly_detector self) (raw_value rate_data)
                      historical_values of
                 Inl e \<Rightarrow> Inl (statistics_error_text env, db, results)
               | Inr anomaly_result \<Rightarrow>
                   if is_anomaly anomaly_result
                   then (let results' = results\<lparr>res_anomalies_detected :=
                                                   res_anomalies_detected results + 1\<rparr>;
                             thr = anomaly_std_threshold (settings self);
                             db' = fst (log_anomaly (anomaly_time env rt) db (rate_value rt)
                                      (anomaly_type anomaly_result) (raw_value rate_data)
                                      (mean anomaly_result - std_dev anomaly_result * thr)
                                      (mean anomaly_result + std_dev anomaly_result * thr)
                                      (z_score anomaly_result) (message anomaly_result))
                         in check_and_store self env rest
                              (fst (store_rate (store_time env rt) db' rate_data)) results')
                   else check_and_store self env rest
                          (fst (store_rate (store_time env rt) db rate_data)) results)
         else check_and_store self env rest
                (fst (store_rate (store_time env rt) db rate_data)) results)"

text \<open>The two loops that write one \<^verbatim>\<open>oracle_updates\<close> row per fetched rate.\<close>

fun log_oracle_updates ::
    "run_env \<Rightarrow> RateType list \<Rightarrow> string option \<Rightarrow> int option \<Rightarrow> int option \<Rightarrow> string \<Rightarrow>
     string option \<Rightarrow> data_store \<Rightarrow> data_store" where
  "log_oracle_updates env [] h b g status err db = db"
| "log_oracle_updates env (rt # rest) h b g status err db =
     log_oracle_updates env rest h b g status err
       (fst (log_oracle_update (oracle_log_time env rt) db (rate_value rt) h b g status err))"

text \<open>
  The \<^verbatim>\<open>try\<close> around the oracle update: constructing the updater or \<^verbatim>\<open>sync_all_rates\<close>
  may raise, and then every fetched rate gets a failed row. \<^verbatim>\<open>if oracle_result.error\<close>
  holds for a text that is not empty.
\<close>

definition update_oracle ::
    "pylib \<Rightarrow> run_env \<Rightarrow> (RateType \<times> RateData) list \<Rightarrow> data_store \<Rightarrow> update_results \<Rightarrow>
     data_store \<times> update_results \<times> batch_call option" where
  "update_oracle lib env fetched_rates db results =
     (case (case updater_init env of
              Some msg \<Rightarrow> Inl msg
            | None \<Rightarrow> sync_all_rates lib (updater_http env) (chain_state env) (tx_fate env) False) of
        Inl msg \<Rightarrow>
          (log_oracle_updates env (map fst fetched_rates) None None None ''failed'' (Some msg) db,
           results\<lparr>res_error := Some msg\<rparr>, None)
      | Inr (oracle_result, sent) \<Rightarrow>
          (let results' = results\<lparr>res_success := success oracle_result,
                                   res_rates_updated := rates_updated oracle_result,
                                   res_rates_skipped := rates_skipped oracle_result,
                                   res_tx_hash := tx_hash oracle_result\<rparr>;
               results'' = (case error oracle_result of
                              None \<Rightarrow> results'
                            | Some msg \<Rightarrow> if msg = [] then results'
                                          else results'\<lparr>res_error := Some msg\<rparr>)
           in (log_oracle_updates env (map fst fetched_rates) (tx_hash oracle_result)
                 (block oracle_result) (gas_used oracle_result)
                 (if success oracle_result then ''success'' else ''failed'')
                 (error oracle_result) db,
               results'', sent)))"

text \<open>
  \<^verbatim>\<open>_update_rates\<close>, with the outcome of each \<^verbatim>\<open>bcb.fetch_with_retry(...)\<close> call taken
  from the environment. The result is the \<^verbatim>\<open>results\<close> dictionary returned, the database
  after the run and the batch call that was broadcast, if one was. \<^verbatim>\<open>_send_alert\<close> only
  logs.
\<close>

definition update_rates ::
    "pylib \<Rightarrow> RateScheduler \<Rightarrow> run_env \<Rightarrow> data_store \<Rightarrow>
     RateType list \<Rightarrow> string \<Rightarrow> update_results \<times> data_store \<times> batch_call option" where
  "update_rates lib self env db0 rate_types update_type =
     (let job_id = update_type @ ''_rates'';
          db1 = fst (log_scheduler_run db0 job_id (job_start env) ''running'')
      in case fetch_loop (fetch_with_retry env) rate_types [] initial_results of
           Inl (msg, results) \<Rightarrow>
             (results\<lparr>res_error := Some msg\<rparr>,
              update_scheduler_run db1 job_id (job_end env) ''failed'' 0 0 (Some msg), None)
         | Inr (fetched_rates, results) \<Rightarrow>
             if fetched_rates = []
             then (results\<lparr>res_error := Some ''No rates fetched from BCB''\<rparr>,
                   update_scheduler_run db1 job_id (job_end env) ''failed'' 0 0
                     (Some ''No rates fetched from BCB''), None)
             else (case check_and_store self env fetched_rates db1 results of
                     Inl (msg, db2, results2) \<Rightarrow>
                       (results2\<lparr>res_error := Some msg\<rparr>,
                        update_scheduler_run db2 job_id (job_end env) ''failed'' 0 0 (Some msg),
                        None)
                   | Inr (db2, results2) \<Rightarrow>
                       (case update_oracle lib env fetched_rates db2 results2 of
                          (db3, results3, sent) \<Rightarrow>
                            (results3,
                             update_scheduler_run db3 job_id (job_end env)
                               (if res_success results3 then ''completed'' else ''failed'')
                               (int (length rate_types)) (res_rates_updated results3)
                               (res_error results3),
                             sent))))"

text \<open>
  \<^verbatim>\<open>_update_rates\<close> with the client of the repository: each fetch goes through the
  attribute lookup on the client.
\<close>

definition update_rates_as_written ::
    "pylib \<Rightarrow> RateScheduler \<Rightarrow> run_env \<Rightarrow> data_store \<Rightarrow> RateType list \<Rightarrow> string \<Rightarrow>
     update_results \<times> data_store \<times> batch_call option" where
  "update_rates_as_written lib self env db0 rate_types update_type =
     update_rates lib self
       (env\<lparr>fetch_with_retry := call_fetch_with_retry (fetch_with_retry env)\<rparr>) db0
       rate_types update_type"


section \<open>Sample observations\<close>

text \<open>
  A CDI observation as \<^verbatim>\<open>_process_response\<close> builds it from the record
  \<^verbatim>\<open>{"data": "26/11/2024", "valor": ...}\<close>, with the raw value and its scaled answer
  left open.
\<close>

definition cdi_observation :: "real \<Rightarrow> int \<Rightarrow> RateData" where
  "cdi_observation v a = \<lparr>rate_type = CDI, answer = a, raw_value = v,
     rd_decimals = CHAINLINK_DECIMALS, real_world_date = 20241126,
     real_world_date_str = ''26/11/2024'',
     timestamp = \<lparr>dt_year = 2024, dt_month = 11, dt_day = 26\<rparr>,
     source = ''BCB-12'', rd_description = description (RATE_CONFIGS CDI)\<rparr>"

text \<open>
  A record of the response in the documented form
  \<^verbatim>\<open>{"data": "26/11/2024", "valor": "10,50"}\<close>, both values strings.
\<close>

definition bcb_record :: "string \<Rightarrow> string \<Rightarrow> item" where
  "bcb_record d v = JObject (\<lambda>key. if key = ''data'' then Some (JString d)
                                   else if key = ''valor'' then Some (JString v) else None)"

text \<open>
  The library at the strings the sample records use: \<^verbatim>\<open>strptime\<close> reads the two dates
  and raises \<^verbatim>\<open>ValueError\<close> on \<^verbatim>\<open>"2024-11-26"\<close>, which is not in the day/month/year form;
  \<^verbatim>\<open>float\<close> reads the three decimals, each a binary64 number, and \<^verbatim>\<open>"inf"\<close>. The text
  of an exception is asked of the \<^verbatim>\<open>OverflowError\<close> of \<^verbatim>\<open>round\<close> only.
\<close>

definition sample_lib :: pylib where
  "sample_lib = \<lparr>
     strptime_dmy = (\<lambda>s. if s = ''26/11/2024'' then Some \<lparr>dt_year = 2024, dt_month = 11, dt_day = 26\<rparr>
                          else if s = ''25/11/2024'' then Some \<lparr>dt_year = 2024, dt_month = 11, dt_day = 25\<rparr>
                          else None),
     float_of_str = (\<lambda>s. if s = ''10.50'' then Some (Finite 10.5)
                          else if s = ''10.75'' then Some (Finite 10.75)
                          else if s = ''75.00'' then Some (Finite 75)
                          else if s = ''inf'' then Some PosInf
                          else None),
     exn_text = (\<lambda>e. ''cannot convert float infinity to integer'')\<rparr>"



text \<open>
  The observation that \<^verbatim>\<open>fetch_latest\<close> returns for a rate type when the request is
  answered with the single record \<^verbatim>\<open>{"data": "26/11/2024", "valor": "10,50"}\<close>, and that
  answer for every rate type.
\<close>

definition sample_observation :: "RateType \<Rightarrow> RateData" where
  "sample_observation rt = make_rate_data rt (bcb_record ''26/11/2024'' ''10,50'') 20241126
     \<lparr>dt_year = 2024, dt_month = 11, dt_day = 26\<rparr> (Finite 10.5) 1050000000"

definition sample_http :: "RateType \<Rightarrow> http_outcome" where
  "sample_http rt = Body [bcb_record ''26/11/2024'' ''10,50'']"

text \<open>
  Two receipts of a mined batch, both with status 1: one whose transaction emitted no
  event, one with an event for each of six entries.
\<close>

definition skipping_receipt :: receipt where
  "skipping_receipt = \<lparr>rc_status = 1, rc_logs = [], rc_blockNumber = 100, rc_gasUsed = 90000\<rparr>"

definition updating_receipt :: receipt where
  "updating_receipt = \<lparr>rc_status = 1,
     rc_logs = [[''RateUpdated''], [''RateUpdated''], [''RateUpdated''], [''RateUpdated''],
                [''RateUpdated''], [''RateUpdated'']],
     rc_blockNumber = 100, rc_gasUsed = 400000\<rparr>"

text \<open>
  A run over all six rate types in which the source serves CDI, SELIC, PTAX and TR and
  fails for IPCA and IGPM (what a fetch of each rate with retries would end with), while
  the requests of \<^verbatim>\<open>sync_all_rates\<close> are all answered, the contract holds no rate yet
  and a batch would be mined with success.
\<close>

definition partial_env :: run_env where
  "partial_env = \<lparr>
     job_start = ''2024-11-26T19:00:00.000000'',
     fetch_with_retry = (\<lambda>rt. if rt = IPCA \<or> rt = IGPM then FetchFailed BCBAPIError
                              else Fetched (sample_observation rt)),
     history_cutoff = (\<lambda>rt. ''2024-10-27T19:00:05.000000''),
     anomaly_time = (\<lambda>rt. ''2024-11-26 22:00:05''),
     store_time = (\<lambda>rt. ''2024-11-26 22:00:05''),
     statistics_error_text = ''stdev requires at least two data points'',
     updater_init = None,
     updater_http = sample_http,
     chain_state = (\<lambda>rt. ContractLogicError),
     tx_fate = Mined ''0xabc'' updating_receipt,
     oracle_log_time = (\<lambda>rt. ''2024-11-26 22:00:30''),
     job_end = ''2024-11-26T19:00:31.000000''\<rparr>"

section \<open>Properties of the idempotency check\<close>

lemma str_int_20241126: "str_int 20241126 = ''20241126''"
  by (simp add: str_int_def digit_char_def)

lemma str_int_20241125: "str_int 20241125 = ''20241125''"
  by (simp add: str_int_def digit_char_def)

text \<open>
  Claim C1. \<^verbatim>\<open>check_needs_update\<close> answers \<open>(True, reason)\<close> when the contract has no
  record of the rate type, and otherwise answers \<open>(b, reason)\<close> where \<open>b\<close> holds
  exactly when the reference date on chain is strictly less than the candidate's. In
  both cases it returns (\<open>Inr\<close>): an on-chain date equal to or greater than the
  candidate's gives \<open>(False, reason)\<close>, not an exception.
\<close>

theorem check_needs_update_decision:
  "(chain (rate_value (rate_type rd)) = ContractLogicError \<longrightarrow>
      check_needs_update chain rd = Inr (True, ''no_existing_data'')) \<and>
   (chain (rate_value (rate_type rd)) = CallReturned a ts d \<longrightarrow>
      (\<exists>reason. check_needs_update chain rd = Inr (d < real_world_date rd, reason)))"
  by auto

theorem check_needs_update_decision_witness:
  "check_needs_update (\<lambda>_. ContractLogicError) (cdi_observation 10.5 1050000000)
     = Inr (True, ''no_existing_data'') \<and>
   (\<exists>reason. check_needs_update (\<lambda>_. CallReturned 1050000000 1732650000 20241125)
        (cdi_observation 10.5 1050000000) = Inr (True, reason)) \<and>
   (\<exists>reason. check_needs_update (\<lambda>_. CallReturned 1050000000 1732650000 20241126)
        (cdi_observation 10.5 1050000000) = Inr (False, reason)) \<and>
   (\<exists>reason. check_needs_update (\<lambda>_. CallReturned 1050000000 1732650000 20241127)
        (cdi_observation 10.5 1050000000) = Inr (False, reason))"
  using check_needs_update_decision [of "\<lambda>_. ContractLogicError"
          "cdi_observation 10.5 1050000000"]
        check_needs_update_decision [of "\<lambda>_. CallReturned 1050000000 1732650000 20241125"
          "cdi_observation 10.5 1050000000" 1050000000 1732650000 20241125]
        check_needs_update_decision [of "\<lambda>_. CallReturned 1050000000 1732650000 20241126"
          "cdi_observation 10.5 1050000000" 1050000000 1732650000 20241126]
        check_needs_update_decision [of "\<lambda>_. CallReturned 1050000000 1732650000 20241127"
          "cdi_observation 10.5 1050000000" 1050000000 1732650000 20241127]
  by (simp add: cdi_observation_def)

section \<open>Properties of the rates table\<close>

lemma store_rate_keeps_distinct:
  "distinct (map rate_key (rates db)) \<Longrightarrow>
   distinct (map rate_key (rates (fst (store_rate now db rd))))"
  by (auto simp: store_rate_def Let_def distinct_map_filter)

lemma store_rates_keeps_distinct:
  "distinct (map rate_key (rates db)) \<Longrightarrow>
   distinct (map rate_key (rates (store_rates db calls)))"
  by (induction db calls rule: store_rates.induct) (auto simp: store_rate_keeps_distinct)

lemma store_rate_twice:
  assumes "rate_type r1 = rate_type r2" and "real_world_date r1 = real_world_date r2"
  shows "rows_for (fst (store_rate t2 (fst (store_rate t1 db r1)) r2))
           (rate_value (rate_type r1), real_world_date r1)
         = [\<lparr>row_id = rates_seq db + 2, row_rate_type = rate_value (rate_type r2),
             row_answer = answer r2, row_raw_value = raw_value r2,
             row_real_world_date = real_world_date r2,
             row_bcb_timestamp = isoformat (timestamp r2),
             row_fetch_timestamp = t2, row_source = source r2\<rparr>]"
  using assms
  by (auto simp: store_rate_def Let_def rows_for_def rate_key_def filter_empty_conv)

text \<open>
  Claim C2. For two observations with the same rate type and reference date, whatever
  their values and whatever the table held before, \<^verbatim>\<open>store_rate\<close> of the first and
  then of the second leaves exactly one row under that key, and the row carries the
  second observation's answer and raw value. Moreover the table, which starts empty and
  is written by \<^verbatim>\<open>store_rate\<close> only, never holds two rows with the same
  (rate type, reference date).
\<close>

theorem store_rate_upsert:
  assumes "rate_type r1 = rate_type r2" and "real_world_date r1 = real_world_date r2"
  shows "rows_for (fst (store_rate t2 (fst (store_rate t1 db r1)) r2))
           (rate_value (rate_type r1), real_world_date r1)
         = [\<lparr>row_id = rates_seq db + 2, row_rate_type = rate_value (rate_type r2),
             row_answer = answer r2, row_raw_value = raw_value r2,
             row_real_world_date = real_world_date r2,
             row_bcb_timestamp = isoformat (timestamp r2),
             row_fetch_timestamp = t2, row_source = source r2\<rparr>]
       \<and> distinct (map rate_key (rates (store_rates empty_store calls)))"
proof
  show "rows_for (fst (store_rate t2 (fst (store_rate t1 db r1)) r2))
           (rate_value (rate_type r1), real_world_date r1)
         = [\<lparr>row_id = rates_seq db + 2, row_rate_type = rate_value (rate_type r2),
             row_answer = answer r2, row_raw_value = raw_value r2,
             row_real_world_date = real_world_date r2,
             row_bcb_timestamp = isoformat (timestamp r2),
             row_fetch_timestamp = t2, row_source = source r2\<rparr>]"
    using assms by (rule store_rate_twice)
next
  have "distinct (map rate_key (rates empty_store))"
    by (simp add: empty_store_def)
  then show "distinct (map rate_key (rates (store_rates empty_store calls)))"
    by (rule store_rates_keeps_distinct)
qed

theorem store_rate_upsert_witness:
  "rows_for (fst (store_rate ''2024-11-27 01:00:00''
       (fst (store_rate ''2024-11-26 22:00:00'' empty_store (cdi_observation 10.5 1050000000)))
       (cdi_observation 10.75 1075000000))) (''CDI'', 20241126)
   = [\<lparr>row_id = 2, row_rate_type = ''CDI'', row_answer = 1075000000, row_raw_value = 10.75,
       row_real_world_date = 20241126,
       row_bcb_timestamp = isoformat \<lparr>dt_year = 2024, dt_month = 11, dt_day = 26\<rparr>,
       row_fetch_timestamp = ''2024-11-27 01:00:00'', row_source = ''BCB-12''\<rparr>]"
  using store_rate_upsert [of "cdi_observation 10.5 1050000000"
          "cdi_observation 10.75 1075000000" "''2024-11-27 01:00:00''"
          "''2024-11-26 22:00:00''" empty_store "[]"]
  by (simp add: cdi_observation_def empty_store_def)

section \<open>Properties of the scaling\<close>

lemma round_half_even_error: "\<bar>of_int (round_half_even x) - x\<bar> \<le> 1 / 2"
  unfolding round_half_even_def Let_def by (auto; linarith)

lemma round_half_even_of_int: "round_half_even (of_int n) = n"
  by (simp add: round_half_even_def)

lemma grid_exponent_nonpos:
  assumes "x \<noteq> 0" "\<bar>x\<bar> < 2 ^ 53"
  shows "max (\<lfloor>log 2 \<bar>x\<bar>\<rfloor> - 52) (- 1074) \<le> 0"
proof -
  have "log 2 \<bar>x\<bar> < 53"
    using assms by (simp add: log_less_iff powr_realpow)
  then have "\<lfloor>log 2 \<bar>x\<bar>\<rfloor> < 53" by linarith
  then show ?thesis by simp
qed

lemma binary64_nearest_error:
  assumes "\<bar>x\<bar> < 2 ^ 53"
  shows "\<bar>binary64_nearest x - x\<bar> \<le> 1 / 2"
proof (cases "x = 0")
  case True then show ?thesis by (simp add: binary64_nearest_def)
next
  case False
  define e where "e = max (\<lfloor>log 2 \<bar>x\<bar>\<rfloor> - 52) (- 1074)"
  have e: "e \<le> 0" unfolding e_def using False assms by (rule grid_exponent_nonpos)
  have p: "(0::real) < 2 powi e" by simp
  have p1: "(2::real) powi e \<le> 1"
    using power_int_increasing[of e 0 "2::real"] e by simp
  have "binary64_nearest x - x
          = (of_int (round_half_even (x / 2 powi e)) - x / 2 powi e) * 2 powi e"
    using False p by (simp add: binary64_nearest_def e_def Let_def field_simps)
  then have "\<bar>binary64_nearest x - x\<bar>
          = \<bar>of_int (round_half_even (x / 2 powi e)) - x / 2 powi e\<bar> * 2 powi e"
    using p by (simp add: abs_mult)
  also have "\<dots> \<le> (1 / 2) * 2 powi e"
    using round_half_even_error[of "x / 2 powi e"] p by (intro mult_right_mono) auto
  also have "\<dots> \<le> 1 / 2" using p1 by simp
  finally show ?thesis .
qed

lemma binary64_nearest_of_int:
  assumes "\<bar>n\<bar> < 2 ^ 53"
  shows "binary64_nearest (of_int n) = of_int n"
proof (cases "n = 0")
  case True then show ?thesis by (simp add: binary64_nearest_def)
next
  case False
  define x :: real where "x = of_int n"
  define e where "e = max (\<lfloor>log 2 \<bar>x\<bar>\<rfloor> - 52) (- 1074)"
  have "\<bar>x\<bar> < 2 ^ 53"
  proof -
    have "real_of_int \<bar>n\<bar> < real_of_int (2 ^ 53)" using assms by (simp only: of_int_less_iff)
    then show ?thesis by (simp add: x_def)
  qed
  then have e: "e \<le> 0"
    unfolding e_def using False by (intro grid_exponent_nonpos) (auto simp: x_def)
  have "x / 2 powi e = x * 2 ^ nat (- e)"
    using e by (simp add: power_int_def field_simps)
  also have "\<dots> = of_int (n * 2 ^ nat (- e))" by (simp add: x_def)
  finally have q: "x / 2 powi e = of_int (n * 2 ^ nat (- e))" .
  have "of_int (round_half_even (x / 2 powi e)) * 2 powi e = x / 2 powi e * 2 powi e"
    by (simp only: q round_half_even_of_int)
  also have "\<dots> = x" by simp
  finally have r: "of_int (round_half_even (x / 2 powi e)) * 2 powi e = x" .
  have "x \<noteq> 0" using False by (simp add: x_def)
  then have "binary64_nearest x = of_int (round_half_even (x / 2 powi e)) * 2 powi e"
    unfolding binary64_nearest_def e_def Let_def by simp
  then show ?thesis using r by (simp add: x_def)
qed

lemma binary64_round_in_range:
  assumes "\<bar>binary64_nearest x\<bar> < 2 ^ 54"
  shows "binary64_round x = Finite (binary64_nearest x)"
proof -
  have "(2::real) ^ 54 \<le> 2 ^ 1024" by (rule power_increasing) simp_all
  then have "\<bar>binary64_nearest x\<bar> < 2 ^ 1024" using assms by linarith
  then show ?thesis by (simp add: binary64_round_def Let_def)
qed

lemma binary64_round_finite:
  assumes "\<bar>x\<bar> < 2 ^ 53"
  shows "binary64_round x = Finite (binary64_nearest x)"
proof -
  have "\<bar>binary64_nearest x\<bar> \<le> \<bar>x\<bar> + 1 / 2"
    using binary64_nearest_error[OF assms] by linarith
  also have "\<dots> < 2 ^ 54" using assms by simp
  finally show ?thesis by (rule binary64_round_in_range)
qed

lemma scale_to_chainlink_unfold:
  "scale_to_chainlink (Finite v) = py_round (binary64_round (v * 10 ^ 8))"
  by (simp add: scale_to_chainlink_def CHAINLINK_PRECISION_def CHAINLINK_DECIMALS_def)

lemma scale_to_chainlink_finite:
  assumes "\<bar>v * 10 ^ 8\<bar> < 2 ^ 53"
  shows "scale_to_chainlink (Finite v) = Inr (round_half_even (binary64_nearest (v * 10 ^ 8)))"
  unfolding scale_to_chainlink_unfold binary64_round_finite[OF assms] by simp

lemma scale_to_chainlink_exact:
  assumes "v * 10 ^ 8 = of_int n" and "\<bar>n\<bar> < 2 ^ 53"
  shows "scale_to_chainlink (Finite v) = Inr n"
proof -
  have "real_of_int \<bar>n\<bar> < real_of_int (2 ^ 53)"
    using assms(2) by (simp only: of_int_less_iff)
  then have "\<bar>real_of_int n\<bar> < 2 ^ 53" by simp
  then have "\<bar>v * 10 ^ 8\<bar> < 2 ^ 53" by (simp only: assms(1))
  then have "scale_to_chainlink (Finite v)
               = Inr (round_half_even (binary64_nearest (v * 10 ^ 8)))"
    by (rule scale_to_chainlink_finite)
  also have "\<dots> = Inr (round_half_even (binary64_nearest (of_int n)))"
    by (simp only: assms(1))
  also have "\<dots> = Inr n"
    by (simp only: binary64_nearest_of_int[OF assms(2)] round_half_even_of_int)
  finally show ?thesis .
qed


lemma scale_105: "scale_to_chainlink (Finite (21 / 2)) = Inr 1050000000"
  by (rule scale_to_chainlink_exact) simp_all



text \<open>
  Claim C3, as the code has it. For every finite raw value \<open>v\<close> whose product with
  \<open>10\<^sup>8\<close> is below \<open>2\<^sup>5\<^sup>3\<close> in magnitude (every value inside the circuit-breaker bounds
  is), \<^verbatim>\<open>_scale_to_chainlink\<close> returns the float product \<open>v \<times> 10\<^sup>8\<close> rounded to an integer
  by one rounding, half to even; this integer is within 1 of the exact \<open>v \<times> 10\<^sup>8\<close>, and
  divided by \<open>10\<^sup>8\<close> it is within \<open>10\<^sup>-\<^sup>8\<close> of \<open>v\<close>.
\<close>

theorem scale_to_chainlink_round_trip:
  assumes "\<bar>v * 10 ^ 8\<bar> < 2 ^ 53"
  shows "\<exists>s. scale_to_chainlink (Finite v) = Inr s
           \<and> s = round_half_even (binary64_nearest (v * 10 ^ 8))
           \<and> \<bar>of_int s - v * 10 ^ 8\<bar> \<le> 1
           \<and> \<bar>of_int s / 10 ^ 8 - v\<bar> \<le> 1 / 10 ^ 8"
proof -
  let ?p = "binary64_nearest (v * 10 ^ 8)"
  let ?s = "round_half_even ?p"
  have s: "scale_to_chainlink (Finite v) = Inr ?s"
    using assms by (rule scale_to_chainlink_finite)
  have "\<bar>of_int ?s - ?p\<bar> \<le> 1 / 2" by (rule round_half_even_error)
  moreover have "\<bar>?p - v * 10 ^ 8\<bar> \<le> 1 / 2" using assms by (rule binary64_nearest_error)
  ultimately have b: "\<bar>of_int ?s - v * 10 ^ 8\<bar> \<le> 1"
    by linarith
  then have "\<bar>of_int ?s / 10 ^ 8 - v\<bar> \<le> 1 / 10 ^ 8"
    by (simp add: abs_le_iff field_simps)
  with s b show ?thesis by blast
qed

theorem scale_to_chainlink_round_trip_witness:
  "\<bar>(21 / 2 :: real) * 10 ^ 8\<bar> < 2 ^ 53
   \<and> scale_to_chainlink (Finite (21 / 2)) = Inr 1050000000
   \<and> \<bar>of_int 1050000000 / 10 ^ 8 - (21 / 2 :: real)\<bar> \<le> 1 / 10 ^ 8"
proof -
  have h: "\<bar>(21 / 2 :: real) * 10 ^ 8\<bar> < 2 ^ 53" by simp
  from scale_to_chainlink_round_trip [OF h] show ?thesis
    using h by (auto simp: scale_105)
qed

lemma floor_log2_big: "\<lfloor>log 2 3435973836900000000\<rfloor> = 61"
proof -
  have "\<lfloor>log (real 2) (real 3435973836900000000)\<rfloor> = int 61"
    by (rule floor_log_nat_eq_if) simp_all
  then show ?thesis by simp
qed

lemma binary64_nearest_big: "binary64_nearest 3435973836900000000 = 3435973836899999744"
proof -
  have "round_half_even (3435973836900000000 / 2 powi 9) = 6710886400195312"
    by (simp add: round_half_even_def power_int_def Let_def)
  then show ?thesis
    by (simp add: binary64_nearest_def floor_log2_big Let_def)
qed

lemma binary64_round_big: "binary64_round 3435973836900000000 = Finite 3435973836899999744"
proof -
  have "(3435973836899999744 :: real) < 2 ^ 62" by simp
  also have "(2::real) ^ 62 \<le> 2 ^ 1024" by (rule power_increasing) simp_all
  finally show ?thesis
    by (simp add: binary64_round_def binary64_nearest_big Let_def)
qed

text \<open>
  The claim as stated, for every raw value, fails: the float 34359738369.0 is scaled to
  3435973836899999744, which is 256 away from the exact product 3435973836900000000.
\<close>

theorem scale_to_chainlink_counterexample:
  "scale_to_chainlink (Finite 34359738369) = Inr 3435973836899999744
   \<and> \<not> \<bar>of_int 3435973836899999744 - 34359738369 * 10 ^ 8\<bar> \<le> (1::real)"
proof -
  have "scale_to_chainlink (Finite 34359738369)
          = py_round (binary64_round 3435973836900000000)"
    by (simp add: scale_to_chainlink_unfold)
  also have "\<dots> = Inr (round_half_even (of_int 3435973836899999744))"
    by (simp add: binary64_round_big)
  also have "\<dots> = Inr 3435973836899999744" by (simp only: round_half_even_of_int)
  finally have s: "scale_to_chainlink (Finite 34359738369) = Inr 3435973836899999744" .
  show ?thesis unfolding s by simp
qed

section \<open>Properties of the response processing\<close>






















section \<open>Properties of a client without validation\<close>









section \<open>Properties of the anomaly detector\<close>








section \<open>Properties of the batch update\<close>

lemma fetch_latest_sample:
  "fetch_latest sample_lib BCBClient_default (sample_http rt) rt = Inr (sample_observation rt)"
  by (cases rt)
     (simp_all add: fetch_latest_def sample_http_def process_response_def process_item_def
        item_date_def item_raw_value_def bcb_record_def sample_lib_def replace_comma_def
        scale_105 validate_value_def BCBClient_default_def sort_by_date_desc_def
        sample_observation_def)

lemma fetch_all_latest_sample:
  "fetch_all_latest sample_lib BCBClient_default sample_http
     = Inr (map (\<lambda>rt. (rt, sample_observation rt)) all_rate_types)"
  by (simp add: fetch_all_latest_def all_rate_types_def fetch_latest_sample)

lemma check_same_date:
  "check_needs_update (\<lambda>rt. CallReturned 1050000000 1732650000 20241126) (sample_observation rt)
     = Inr (False, ''same_date:20241126'')"
  by (simp add: sample_observation_def make_rate_data_def str_int_20241126)

lemma sync_all_rates_sent:
  assumes "sync_all_rates lib http chain_st txo force = Inr (r, Some b)"
  shows "\<exists>fetched. fetch_all_latest lib BCBClient_default http = Inr fetched
           \<and> b = batch_of (map snd fetched)"
  using assms
  by (auto simp: sync_all_rates_def Let_def split: if_splits sum.splits prod.splits tx_outcome.splits)

text \<open>
  Claim C9. The logs of the receipt do not enter the result of \<^verbatim>\<open>sync_all_rates\<close>: after
  a batch mined with success, \<^verbatim>\<open>rates_updated\<close> is the length of \<^verbatim>\<open>to_update\<close>, the rates
  the pre-check (or \<^verbatim>\<open>force\<close>) selected. With \<^verbatim>\<open>force\<close>, six rates whose reference date
  is already on chain and a receipt without any event, the result reports
  \<^verbatim>\<open>rates_updated = 6\<close> where the number of update events (\<^verbatim>\<open>actual_updated\<close>) is 0.
\<close>

theorem sync_all_rates_counts_pre_check:
  "sync_all_rates lib http chain_st (Mined h (rc\<lparr>rc_logs := logs\<rparr>)) force
     = sync_all_rates lib http chain_st (Mined h rc) force
   \<and> map_sum id (\<lambda>p. (success (fst p), rates_updated (fst p)))
        (sync_all_rates sample_lib sample_http
           (\<lambda>rt. CallReturned 1050000000 1732650000 20241126)
           (Mined ''0xabc'' skipping_receipt) True) = Inr (True, 6)
   \<and> actual_updated skipping_receipt = 0"
proof (intro conjI)
  show "sync_all_rates lib http chain_st (Mined h (rc\<lparr>rc_logs := logs\<rparr>)) force
     = sync_all_rates lib http chain_st (Mined h rc) force"
    by (simp add: sync_all_rates_def Let_def split: sum.splits prod.splits)
  show "map_sum id (\<lambda>p. (success (fst p), rates_updated (fst p)))
        (sync_all_rates sample_lib sample_http
           (\<lambda>rt. CallReturned 1050000000 1732650000 20241126)
           (Mined ''0xabc'' skipping_receipt) True) = Inr (True, 6)"
    by (simp add: sync_all_rates_def fetch_all_latest_sample all_rate_types_def check_same_date
        skipping_receipt_def Let_def)
  show "actual_updated skipping_receipt = 0"
    by (simp add: skipping_receipt_def actual_updated_def)
qed

section \<open>Properties of the update routine\<close>

lemma getattr_fwr: "BCBClient_getattr ''fetch_with_retry''
   = Inl ([CHR 0x27] @ ''BCBClient'' @ [CHR 0x27] @ '' object has no attribute ''
                  @ [CHR 0x27] @ ''fetch_with_retry'' @ [CHR 0x27])"
  by (simp add: BCBClient_getattr_def BCBClient_attributes_def)

text \<open>
  Claim C4. Class \<^verbatim>\<open>BCBClient\<close> defines no \<^verbatim>\<open>fetch_with_retry\<close>: the lookup raises
  \<^verbatim>\<open>AttributeError\<close>, nothing is retried and nothing is fetched. In the update routine the
  first call of the fetch loop therefore raises; the exception is no \<^verbatim>\<open>BCBClientError\<close>, so
  it reaches the outer handler, and the daily job ends as a failed run with no rate
  counted as failed and no chain call.
\<close>

theorem update_rates_as_written_fails:
  "update_rates_as_written sample_lib (RateScheduler_init Settings_default) partial_env
     empty_store DAILY_RATES ''daily''
   = (initial_results\<lparr>res_error := Some ([CHR 0x27] @ ''BCBClient'' @ [CHR 0x27] @ '' object has no attribute ''
                  @ [CHR 0x27] @ ''fetch_with_retry'' @ [CHR 0x27])\<rparr>,
      empty_store\<lparr>scheduler_runs :=
        [\<lparr>sr_id = 1, sr_job_id = ''daily_rates'', sr_started_at = ''2024-11-26T19:00:00.000000'',
          sr_ended_at = Some ''2024-11-26T19:00:31.000000'', sr_status = ''failed'',
          sr_rates_processed = 0, sr_rates_updated = 0,
          sr_error_message = Some ([CHR 0x27] @ ''BCBClient'' @ [CHR 0x27] @ '' object has no attribute ''
                  @ [CHR 0x27] @ ''fetch_with_retry'' @ [CHR 0x27])\<rparr>],
        scheduler_runs_seq := 1\<rparr>,
      None)"
  by (simp add: update_rates_as_written_def update_rates_def call_fetch_with_retry_def getattr_fwr
        DAILY_RATES_def partial_env_def empty_store_def log_scheduler_run_def
        update_scheduler_run_def Let_def)

text \<open>
  Claim C8. The routine as the repository has it tolerates no partial fetch: whatever
  the source serves, a run over a rate list that is not empty leaves the fetch loop at
  its first call, so it reports no failed rate, does not succeed and broadcasts no batch.
  In the run of \<^verbatim>\<open>update_all_rates\<close> over the six rate types in which the source serves
  CDI, SELIC, PTAX and TR and fails for IPCA and IGPM, the run is closed with status
  failed, \<^verbatim>\<open>rates_failed = 0\<close> and no chain submission, where the claim has status
  completed, \<^verbatim>\<open>rates_failed = 2\<close> and a batch of the four fetched rates.
\<close>

theorem update_rates_as_written_partial:
  "res_rates_failed (fst (update_rates_as_written lib self env db (rt # rest) update_type)) = 0
   \<and> \<not> res_success (fst (update_rates_as_written lib self env db (rt # rest) update_type))
   \<and> snd (snd (update_rates_as_written lib self env db (rt # rest) update_type)) = None
   \<and> update_rates_as_written sample_lib (RateScheduler_init Settings_default) partial_env
        empty_store all_rate_types ''all''
     = (initial_results\<lparr>res_error := Some ([CHR 0x27] @ ''BCBClient'' @ [CHR 0x27] @ '' object has no attribute ''
                  @ [CHR 0x27] @ ''fetch_with_retry'' @ [CHR 0x27])\<rparr>,
        empty_store\<lparr>scheduler_runs :=
          [\<lparr>sr_id = 1, sr_job_id = ''all_rates'', sr_started_at = ''2024-11-26T19:00:00.000000'',
            sr_ended_at = Some ''2024-11-26T19:00:31.000000'', sr_status = ''failed'',
            sr_rates_processed = 0, sr_rates_updated = 0,
            sr_error_message = Some ([CHR 0x27] @ ''BCBClient'' @ [CHR 0x27] @ '' object has no attribute ''
                  @ [CHR 0x27] @ ''fetch_with_retry'' @ [CHR 0x27])\<rparr>],
          scheduler_runs_seq := 1\<rparr>,
        None)"
  by (simp_all add: update_rates_as_written_def update_rates_def call_fetch_with_retry_def getattr_fwr
        all_rate_types_def partial_env_def empty_store_def log_scheduler_run_def
        update_scheduler_run_def Let_def initial_results_def)

end
